theory Spec2Isabelle
  imports Main "HOL-Library.Sublist"
begin

section \<open>Strings and numbers of the host language\<close>

text \<open>
  A string of the host language is a sequence of 16-bit code units; it is modelled as the
  list of their values, so that every string the program can receive has a model. The
  string literals of the source are written with \<open>str\<close>. The texts that the source only
  passes on as they are (messages, names of buckets and tables, the cache-control value)
  and the bytes of a file stay HOL strings. Numbers are mathematical integers: the host
  language's numbers are exact up to \<open>2 ^ 53 - 1\<close> in magnitude, and no statement below is
  made beyond that bound.
\<close>

type_synonym jstring = "nat list"

definition str :: "string \<Rightarrow> jstring" where
  "str s = map of_char s"

definition MAX_SAFE_INTEGER :: int where
  "MAX_SAFE_INTEGER = 2 ^ 53 - 1"

text \<open>
  The code units that \<open>trim\<close> removes and \<open>parseInt\<close> skips, the language's white space
  and line terminators: U+0009 to U+000D, U+0020, U+00A0, U+1680, U+2000 to U+200A,
  U+2028, U+2029, U+202F, U+205F, U+3000 and U+FEFF.
\<close>

definition is_space :: "nat \<Rightarrow> bool" where
  "is_space k =
     ((0x0009 \<le> k \<and> k \<le> 0x000D) \<or> k = 0x0020 \<or> k = 0x00A0 \<or> k = 0x1680 \<or>
      (0x2000 \<le> k \<and> k \<le> 0x200A) \<or> k = 0x2028 \<or> k = 0x2029 \<or> k = 0x202F \<or>
      k = 0x205F \<or> k = 0x3000 \<or> k = 0xFEFF)"

text \<open>\<open>String.prototype.trim\<close>: white space is removed at both ends.\<close>

definition trim :: "jstring \<Rightarrow> jstring" where
  "trim s = rev (dropWhile is_space (rev (dropWhile is_space s)))"

text \<open>\<open>String.prototype.startsWith\<close>.\<close>

definition startsWith :: "jstring \<Rightarrow> jstring \<Rightarrow> bool" where
  "startsWith s p = (take (length p) s = p)"

text \<open>\<open>String.prototype.split\<close> with a separator of one code unit: the pieces between the
  separators, in order; a string without separator is its own single piece.\<close>

fun js_split :: "nat \<Rightarrow> jstring \<Rightarrow> jstring list" where
  "js_split c [] = [[]]"
| "js_split c (x # xs) =
     (if x = c then [] # js_split c xs
      else (case js_split c xs of
              [] \<Rightarrow> [[x]]
            | w # ws \<Rightarrow> (x # w) # ws))"

text \<open>The code unit of the dot.\<close>

definition dot :: nat where
  "dot = of_char (CHR ''.'')"

text \<open>\<open>Array.prototype.pop\<close>, as far as its result goes: the last element, or
  \<open>undefined\<close> (here \<open>None\<close>) for the empty array.\<close>

definition pop :: "'a list \<Rightarrow> 'a option" where
  "pop xs = (if xs = [] then None else Some (last xs))"

text \<open>A value inside a template literal: \<open>undefined\<close> is printed as the word.\<close>

definition template_str :: "jstring option \<Rightarrow> jstring" where
  "template_str v = (case v of None \<Rightarrow> str ''undefined'' | Some s \<Rightarrow> s)"

text \<open>A non-negative integer inside a template literal: its decimal digits.\<close>

definition digit_char :: "nat \<Rightarrow> nat" where
  "digit_char d = of_char (CHR ''0'') + d"

fun string_of_nat :: "nat \<Rightarrow> jstring" where
  "string_of_nat n =
     (if n < 10 then [digit_char n]
      else string_of_nat (n div 10) @ [digit_char (n mod 10)])"

declare string_of_nat.simps [simp del]

text \<open>The result of \<open>parseInt\<close>: not-a-number, or an integer.\<close>

datatype number = NaN | Num int

text \<open>The value of a code unit as a digit: 0 to 9 for the decimal digits, 10 to 35 for
  the letters a to z in either case, and 36 (a digit of no radix) for anything else.\<close>

definition digit_of :: "nat \<Rightarrow> nat" where
  "digit_of k =
     (if 48 \<le> k \<and> k \<le> 57 then k - 48
      else if 97 \<le> k \<and> k \<le> 122 then k - 87
      else if 65 \<le> k \<and> k \<le> 90 then k - 55
      else 36)"

definition radix_value :: "nat \<Rightarrow> jstring \<Rightarrow> nat" where
  "radix_value R Z = foldl (\<lambda>a c. a * R + digit_of c) 0 Z"

text \<open>
  \<open>parseInt(string)\<close> with no radix argument: leading white space is skipped, one sign is
  read, a prefix \<open>0x\<close> or \<open>0X\<close> selects radix 16 (radix 10 otherwise), and the longest run
  of digits of that radix is the value; no digit at all gives not-a-number.
\<close>

definition parseInt :: "jstring \<Rightarrow> number" where
  "parseInt inputString =
     (let S = dropWhile is_space inputString;
          sign = (case S of [] \<Rightarrow> (1::int)
                  | c # _ \<Rightarrow> if c = of_char (CHR ''-'') then - 1 else 1);
          S1 = (case S of [] \<Rightarrow> S
                | c # r \<Rightarrow>
                    if c = of_char (CHR ''+'') \<or> c = of_char (CHR ''-'') then r else S);
          hex = (case S1 of
                   a # b # _ \<Rightarrow>
                     a = of_char (CHR ''0'') \<and>
                     (b = of_char (CHR ''x'') \<or> b = of_char (CHR ''X''))
                 | _ \<Rightarrow> False);
          R = (if hex then 16 else 10);
          S2 = (if hex then drop 2 S1 else S1);
          Z = takeWhile (\<lambda>c. digit_of c < R) S2
      in if Z = [] then NaN else Num (sign * int (radix_value R Z)))"

text \<open>\<open>n || 0\<close> for a number \<open>n\<close>: not-a-number and zero are falsy.\<close>

definition or_zero :: "number \<Rightarrow> int" where
  "or_zero n = (case n of NaN \<Rightarrow> 0 | Num k \<Rightarrow> if k = 0 then 0 else k)"

section \<open>The external services\<close>

text \<open>
  The result of an awaited call to the hosted service: it resolves with data, resolves
  with an error object, or the awaited promise rejects, which the surrounding
  \<open>try\<close>/\<open>catch\<close> of each handler receives.
\<close>

datatype 'a reply = Success 'a | Failure jstring | Rejected

text \<open>A file object: its name, declared media type, size in bytes and content.\<close>

record File =
  f_name :: jstring
  f_type :: jstring
  f_size :: nat
  f_bytes :: string

section \<open>The hero-image upload handler\<close>

text \<open>An entry of the multipart form: a file or a string.\<close>

datatype form_entry = FileEntry File | StringEntry jstring

type_synonym form_data = "jstring \<Rightarrow> form_entry option"

text \<open>The request body either parses as multipart form data or \<open>request.formData()\<close>
  rejects.\<close>

datatype request = Multipart form_data | Unparseable

text \<open>The value of a form entry where the source uses it as a string: \<open>null\<close> and a file
  object are converted by the language.\<close>

definition to_string :: "form_entry option \<Rightarrow> jstring" where
  "to_string e =
     (case e of
        None \<Rightarrow> str ''null''
      | Some (StringEntry s) \<Rightarrow> s
      | Some (FileEntry f) \<Rightarrow> str ''[object File]'')"

text \<open>\<open>v || ''\<close> for a form entry \<open>v\<close>: \<open>null\<close> and the empty string are falsy.\<close>

definition or_empty :: "form_entry option \<Rightarrow> form_entry" where
  "or_empty e =
     (case e of
        None \<Rightarrow> StringEntry []
      | Some (StringEntry s) \<Rightarrow> (if s = [] then StringEntry [] else StringEntry s)
      | Some (FileEntry f) \<Rightarrow> FileEntry f)"

record hero_row =
  file_name :: jstring
  file_url :: jstring
  title :: form_entry
  subtitle :: form_entry
  description :: form_entry
  display_order :: int
  show_content :: bool
  hero_is_active :: bool

text \<open>The calls the handler issues to the hosted service: a storage upload with its
  bucket, key, bytes, content type and cache-control value, and a database insert with
  its table and row.\<close>

datatype hero_call =
    HeroStorageUpload string jstring string jstring string
  | HeroInsert string hero_row

text \<open>The JSON body of a response: \<open>{error}\<close>, or \<open>{success: true, image, message}\<close>. The
  image is the row the insert returns, which is the row sent together with the identifier
  the database assigns.\<close>

datatype body =
    ErrorBody string
  | SuccessBody nat hero_row string

record response =
  status :: nat
  json :: body

definition json_response :: "body \<Rightarrow> nat \<Rightarrow> response" where
  "json_response b st = \<lparr>status = st, json = b\<rparr>"

text \<open>
  \<open>POST\<close>. The parameters besides the request are what the environment supplies:
  the language's \<open>String.prototype.toLowerCase\<close>, whose case mapping is a table of the
  language and not of this program, the clock (\<open>Date.now()\<close>), the public URL the
  storage client computes for a bucket and a key, the reply of the storage upload and the
  reply of the database insert (the identifier the database assigns to the returned row).
  The result is the response and
  the calls issued to the service, in the order issued. A \<open>file\<close> entry that is a string
  passes the check \<open>!file\<close> unless it is empty, and has no \<open>name\<close>: the call of \<open>split\<close>
  on \<open>undefined\<close> throws, and the \<open>catch\<close> block answers.
\<close>

definition POST ::
  "(jstring \<Rightarrow> jstring) \<Rightarrow> nat \<Rightarrow> (string \<Rightarrow> jstring \<Rightarrow> jstring) \<Rightarrow> unit reply
     \<Rightarrow> nat reply \<Rightarrow> request \<Rightarrow> response \<times> hero_call list" where
  "POST toLowerCase now getPublicUrl uploadReply dbReply req =
     (case req of
        Unparseable \<Rightarrow> (json_response (ErrorBody ''Internal server error'') 500, [])
      | Multipart formData \<Rightarrow>
          (let file = formData (str ''file'');
               title = formData (str ''title'');
               subtitle = formData (str ''subtitle'');
               description = formData (str ''description'');
               displayOrder =
                 or_zero (parseInt (to_string (formData (str ''display_order''))));
               showContent =
                 (formData (str ''show_content'') = Some (StringEntry (str ''true'')))
           in case file of
                None \<Rightarrow> (json_response (ErrorBody ''No file provided'') 400, [])
              | Some (StringEntry s) \<Rightarrow>
                  (if s = [] then (json_response (ErrorBody ''No file provided'') 400, [])
                   else (json_response (ErrorBody ''Internal server error'') 500, []))
              | Some (FileEntry f) \<Rightarrow>
                  (let fileExt = map_option toLowerCase (pop (js_split dot (f_name f)));
                       fileName =
                         str ''hero-'' @ string_of_nat now @ str ''.'' @ template_str fileExt;
                       upload = HeroStorageUpload ''hero-images'' fileName (f_bytes f)
                                  (f_type f) ''3600''
                   in case uploadReply of
                        Rejected \<Rightarrow>
                          (json_response (ErrorBody ''Internal server error'') 500, [upload])
                      | Failure e \<Rightarrow>
                          (json_response (ErrorBody ''Failed to upload file'') 500, [upload])
                      | Success u \<Rightarrow>
                          (let row = \<lparr>file_name = fileName,
                                      file_url = getPublicUrl ''hero-images'' fileName,
                                      title = or_empty title,
                                      subtitle = or_empty subtitle,
                                      description = or_empty description,
                                      display_order = displayOrder,
                                      show_content = showContent,
                                      hero_is_active = True\<rparr>;
                               insert = HeroInsert ''hero_images'' row
                           in case dbReply of
                                Rejected \<Rightarrow>
                                  (json_response (ErrorBody ''Internal server error'') 500,
                                   [upload, insert])
                              | Failure e \<Rightarrow>
                                  (json_response (ErrorBody ''Failed to save metadata'') 500,
                                   [upload, insert])
                              | Success rid \<Rightarrow>
                                  (json_response
                                     (SuccessBody rid row ''Hero image uploaded successfully'')
                                     200,
                                   [upload, insert])))))"

section \<open>The QR-code manager\<close>

record QRCodeData =
  qr_id :: jstring
  qr_name :: jstring
  image_url :: jstring
  is_active :: bool
  created_at :: jstring
  updated_at :: jstring

text \<open>The row the component sends with an insert; the remaining columns are assigned by
  the database.\<close>

record qr_insert =
  ins_name :: jstring
  ins_image_url :: jstring
  ins_is_active :: bool

text \<open>The component's state, one field per \<open>useState\<close>, with the initial values of the
  source.\<close>

record manager =
  qrCodes :: "QRCodeData list"
  loading :: bool
  uploading :: bool
  selectedFile :: "File option"
  qrCodeName :: jstring
  error :: string
  success :: string

definition initial_manager :: manager where
  "initial_manager =
     \<lparr>qrCodes = [], loading = True, uploading = False, selectedFile = None,
      qrCodeName = [], error = '''', success = ''''\<rparr>"

text \<open>The network calls the component issues. An update carries the value written to
  \<open>is_active\<close> and its filter: \<open>None\<close> for no filter (every row), \<open>Some i\<close> for
  \<open>eq('id', i)\<close>.\<close>

datatype qr_call =
    QrSelect
  | QrStorageUpload string jstring File
  | QrInsert qr_insert
  | QrDelete jstring
  | QrUpdate bool "jstring option"

text \<open>
  The world a handler runs in: the component's state, the rows of the \<open>qr_codes\<close> table
  held by the database, and the network calls issued so far. A write that the database
  accepts is applied to the table; a write it refuses leaves the table as it was.
\<close>

record world =
  ui :: manager
  qr_table :: "QRCodeData list"
  calls :: "qr_call list"

definition initial_world :: "QRCodeData list \<Rightarrow> world" where
  "initial_world rows = \<lparr>ui = initial_manager, qr_table = rows, calls = []\<rparr>"

definition issue :: "qr_call \<Rightarrow> world \<Rightarrow> world" where
  "issue c w = w\<lparr>calls := calls w @ [c]\<rparr>"

definition setQrCodes :: "QRCodeData list \<Rightarrow> world \<Rightarrow> world" where
  "setQrCodes v w = w\<lparr>ui := (ui w)\<lparr>qrCodes := v\<rparr>\<rparr>"

definition setLoading :: "bool \<Rightarrow> world \<Rightarrow> world" where
  "setLoading v w = w\<lparr>ui := (ui w)\<lparr>loading := v\<rparr>\<rparr>"

definition setUploading :: "bool \<Rightarrow> world \<Rightarrow> world" where
  "setUploading v w = w\<lparr>ui := (ui w)\<lparr>uploading := v\<rparr>\<rparr>"

definition setSelectedFile :: "File option \<Rightarrow> world \<Rightarrow> world" where
  "setSelectedFile v w = w\<lparr>ui := (ui w)\<lparr>selectedFile := v\<rparr>\<rparr>"

definition setQrCodeName :: "jstring \<Rightarrow> world \<Rightarrow> world" where
  "setQrCodeName v w = w\<lparr>ui := (ui w)\<lparr>qrCodeName := v\<rparr>\<rparr>"

definition setError :: "string \<Rightarrow> world \<Rightarrow> world" where
  "setError v w = w\<lparr>ui := (ui w)\<lparr>error := v\<rparr>\<rparr>"

definition setSuccess :: "string \<Rightarrow> world \<Rightarrow> world" where
  "setSuccess v w = w\<lparr>ui := (ui w)\<lparr>success := v\<rparr>\<rparr>"

text \<open>The effect of an accepted write on the table.\<close>

definition db_update :: "bool \<Rightarrow> jstring option \<Rightarrow> QRCodeData list \<Rightarrow> QRCodeData list" where
  "db_update v flt rows =
     map (\<lambda>r. case flt of
                 None \<Rightarrow> r\<lparr>is_active := v\<rparr>
               | Some i \<Rightarrow> if qr_id r = i then r\<lparr>is_active := v\<rparr> else r) rows"

definition db_delete :: "jstring \<Rightarrow> QRCodeData list \<Rightarrow> QRCodeData list" where
  "db_delete i rows = filter (\<lambda>r. qr_id r \<noteq> i) rows"

definition db_insert ::
  "jstring \<Rightarrow> jstring \<Rightarrow> qr_insert \<Rightarrow> QRCodeData list \<Rightarrow> QRCodeData list" where
  "db_insert new_id stamp row rows =
     rows @ [\<lparr>qr_id = new_id, qr_name = ins_name row, image_url = ins_image_url row,
              is_active = ins_is_active row, created_at = stamp, updated_at = stamp\<rparr>]"

text \<open>
  \<open>loadQRCodes\<close>. The parameter is the reply of the select: the rows, or \<open>null\<close> data
  (\<open>None\<close>), which the source replaces by the empty list.
\<close>

definition loadQRCodes :: "QRCodeData list option reply \<Rightarrow> world \<Rightarrow> world" where
  "loadQRCodes selectReply w =
     (let w1 = issue QrSelect (setLoading True w)
      in case selectReply of
           Rejected \<Rightarrow> setLoading False (setError ''Failed to load QR codes'' w1)
         | Failure e \<Rightarrow> setLoading False (setError ''Failed to load QR codes'' w1)
         | Success data \<Rightarrow>
             setLoading False (setQrCodes (case data of None \<Rightarrow> [] | Some d \<Rightarrow> d) w1))"

text \<open>\<open>handleFileSelect\<close>. The parameter is \<open>e.target.files?.[0]\<close>.\<close>

definition handleFileSelect :: "File option \<Rightarrow> world \<Rightarrow> world" where
  "handleFileSelect file w =
     (case file of
        None \<Rightarrow> w
      | Some f \<Rightarrow>
          if f_size f > 5 * 1024 * 1024 then setError ''File size must be less than 5MB'' w
          else if \<not> startsWith (f_type f) (str ''image/'') then
            setError ''Please select an image file'' w
          else setError '''' (setSelectedFile (Some f) w))"

text \<open>
  \<open>uploadQRCode\<close>. The parameters are the clock, the public URL the storage client
  computes, the replies of the storage upload and of the insert (the identifier and the
  time stamp the database assigns) and the reply of the list fetch that follows a
  success. That fetch is started inside the \<open>try\<close> block and not awaited; it writes
  \<open>loading\<close>, \<open>qrCodes\<close> and \<open>error\<close> only, the \<open>finally\<close> block writes \<open>uploading\<close> only, so
  running the fetch to its end before the \<open>finally\<close> block gives the state reached once
  both have completed.
\<close>

definition uploadQRCode ::
  "nat \<Rightarrow> (string \<Rightarrow> jstring \<Rightarrow> jstring) \<Rightarrow> unit reply \<Rightarrow> (jstring \<times> jstring) reply
     \<Rightarrow> QRCodeData list option reply \<Rightarrow> world \<Rightarrow> world" where
  "uploadQRCode now getPublicUrl uploadReply dbReply selectReply w =
     (case selectedFile (ui w) of
        None \<Rightarrow> setError ''Please select a file and enter a name'' w
      | Some f \<Rightarrow>
          if trim (qrCodeName (ui w)) = [] then
            setError ''Please select a file and enter a name'' w
          else
            (let w1 = setError '''' (setUploading True w);
                 fileExt = pop (js_split dot (f_name f));
                 fileName = string_of_nat now @ str ''.'' @ template_str fileExt;
                 w2 = issue (QrStorageUpload ''qr-codes'' fileName f) w1
             in setUploading False
                  (case uploadReply of
                     Rejected \<Rightarrow> setError ''Failed to upload QR code'' w2
                   | Failure e \<Rightarrow> setError ''Failed to upload image'' w2
                   | Success u \<Rightarrow>
                       (let row = \<lparr>ins_name = trim (qrCodeName (ui w)),
                                   ins_image_url = getPublicUrl ''qr-codes'' fileName,
                                   ins_is_active = (length (qrCodes (ui w)) = 0)\<rparr>;
                            w3 = issue (QrInsert row) w2
                        in case dbReply of
                             Rejected \<Rightarrow> setError ''Failed to upload QR code'' w3
                           | Failure e \<Rightarrow> setError ''Failed to save QR code'' w3
                           | Success (new_id, stamp) \<Rightarrow>
                               loadQRCodes selectReply
                                 (setQrCodeName []
                                    (setSelectedFile None
                                       (setSuccess ''QR code uploaded successfully!''
                                          (w3\<lparr>qr_table :=
                                                db_insert new_id stamp row (qr_table w3)\<rparr>))))))))"

text \<open>\<open>deleteQRCode\<close>. The first parameter is the answer to the confirmation prompt.\<close>

definition deleteQRCode ::
  "bool \<Rightarrow> unit reply \<Rightarrow> QRCodeData list option reply \<Rightarrow> jstring \<Rightarrow> world \<Rightarrow> world" where
  "deleteQRCode confirmed deleteReply selectReply i w =
     (if \<not> confirmed then w
      else
        (let w1 = issue (QrDelete i) w
         in case deleteReply of
              Rejected \<Rightarrow> setError ''Failed to delete QR code'' w1
            | Failure e \<Rightarrow> setError ''Failed to delete QR code'' w1
            | Success u \<Rightarrow>
                loadQRCodes selectReply
                  (setSuccess ''QR code deleted successfully!''
                     (w1\<lparr>qr_table := db_delete i (qr_table w1)\<rparr>))))"

text \<open>
  \<open>toggleActive\<close>. The parameters are the replies of the two updates and of the list
  fetch that follows a success. The result of the first update is awaited and dropped:
  only a rejection of the awaited promise reaches the \<open>catch\<close> block.
\<close>

definition toggleActive ::
  "unit reply \<Rightarrow> unit reply \<Rightarrow> QRCodeData list option reply \<Rightarrow> jstring \<Rightarrow> world \<Rightarrow> world" where
  "toggleActive clearReply setReply selectReply i w =
     (let w1 = issue (QrUpdate False None) w
      in case clearReply of
           Rejected \<Rightarrow> setError ''Failed to update QR code status'' w1
         | _ \<Rightarrow>
             (let w2 = (case clearReply of
                          Success u \<Rightarrow> w1\<lparr>qr_table := db_update False None (qr_table w1)\<rparr>
                        | _ \<Rightarrow> w1);
                  w3 = issue (QrUpdate True (Some i)) w2
              in case setReply of
                   Rejected \<Rightarrow> setError ''Failed to update QR code status'' w3
                 | Failure e \<Rightarrow> setError ''Failed to update QR code status'' w3
                 | Success u \<Rightarrow>
                     loadQRCodes selectReply
                       (setSuccess ''QR code status updated!''
                          (w3\<lparr>qr_table := db_update True (Some i) (qr_table w3)\<rparr>))))"

text \<open>
  The user's actions on the component, each with what the environment answers, and the
  component run through a list of them one after the other, each to its end, starting
  from the mounted component.
\<close>

datatype event =
    Load "QRCodeData list option reply"
  | SelectFile "File option"
  | EnterName jstring
  | Upload nat "unit reply" "(jstring \<times> jstring) reply" "QRCodeData list option reply"
  | Delete bool "unit reply" "QRCodeData list option reply" jstring
  | Toggle "unit reply" "unit reply" "QRCodeData list option reply" jstring

fun step :: "(string \<Rightarrow> jstring \<Rightarrow> jstring) \<Rightarrow> world \<Rightarrow> event \<Rightarrow> world" where
  "step url w (Load r) = loadQRCodes r w"
| "step url w (SelectFile f) = handleFileSelect f w"
| "step url w (EnterName s) = setQrCodeName s w"
| "step url w (Upload now ru ri rl) = uploadQRCode now url ru ri rl w"
| "step url w (Delete c rd rl i) = deleteQRCode c rd rl i w"
| "step url w (Toggle r1 r2 rl i) = toggleActive r1 r2 rl i w"

definition run ::
  "(string \<Rightarrow> jstring \<Rightarrow> jstring) \<Rightarrow> QRCodeData list \<Rightarrow> event list \<Rightarrow> world" where
  "run url rows evs = foldl (step url) (initial_world rows) evs"

section \<open>Notions used in the statements\<close>

text \<open>The last dot-separated segment of a file name: what follows its last dot, and the
  whole name when it has no dot.\<close>

definition extension :: "jstring \<Rightarrow> jstring" where
  "extension s = rev (takeWhile (\<lambda>x. x \<noteq> dot) (rev s))"

text \<open>The rows of the database inserts among the calls of the upload handler.\<close>

definition inserted_rows :: "hero_call list \<Rightarrow> hero_row list" where
  "inserted_rows cs = concat (map (\<lambda>c. case c of HeroInsert t r \<Rightarrow> [r] | _ \<Rightarrow> []) cs)"

text \<open>The fields \<open>image\<close> and \<open>error\<close> of a response body.\<close>

definition image_of :: "body \<Rightarrow> hero_row option" where
  "image_of b = (case b of SuccessBody rid row msg \<Rightarrow> Some row | ErrorBody e \<Rightarrow> None)"

definition error_of :: "body \<Rightarrow> string option" where
  "error_of b = (case b of ErrorBody e \<Rightarrow> Some e | SuccessBody rid row msg \<Rightarrow> None)"

text \<open>The rows of the inserts among the calls of the component.\<close>

definition qr_inserts :: "qr_call list \<Rightarrow> qr_insert list" where
  "qr_inserts cs = concat (map (\<lambda>c. case c of QrInsert r \<Rightarrow> [r] | _ \<Rightarrow> []) cs)"

text \<open>The identifiers of the rows of the table with \<open>is_active = true\<close>.\<close>

definition active_ids :: "QRCodeData list \<Rightarrow> jstring list" where
  "active_ids rows = map qr_id (filter is_active rows)"

text \<open>A file that \<open>handleFileSelect\<close> accepts.\<close>

definition acceptable :: "File \<Rightarrow> bool" where
  "acceptable f = (\<not> f_size f > 5 * 1024 * 1024 \<and> startsWith (f_type f) (str ''image/''))"

text \<open>The selected file, if any, is one that \<open>handleFileSelect\<close> accepts.\<close>

definition selection_ok :: "world \<Rightarrow> bool" where
  "selection_ok w = (case selectedFile (ui w) of None \<Rightarrow> True | Some g \<Rightarrow> acceptable g)"

subsection \<open>Concrete inputs\<close>

definition example_url :: "string \<Rightarrow> jstring \<Rightarrow> jstring" where
  "example_url bucket key = str ''https://cdn.example/'' @ str bucket @ str ''/'' @ key"

text \<open>Lower-casing of the letters A to Z, which is what \<open>toLowerCase\<close> does on a string of
  ASCII characters; it stands for \<open>toLowerCase\<close> at the concrete inputs below, which are
  such strings.\<close>

definition ascii_lower :: "jstring \<Rightarrow> jstring" where
  "ascii_lower s = map (\<lambda>k. if 65 \<le> k \<and> k \<le> 90 then k + 32 else k) s"

definition example_file :: File where
  "example_file =
     \<lparr>f_name = str ''Banner.Summer.JPG'', f_type = str ''image/jpeg'', f_size = 2097152,
      f_bytes = ''abc''\<rparr>"

definition large_file :: File where
  "large_file =
     \<lparr>f_name = str ''poster.png'', f_type = str ''image/png'', f_size = 6291456,
      f_bytes = ''abc''\<rparr>"

definition example_form :: form_data where
  "example_form =
     Map.empty(str ''file'' \<mapsto> FileEntry example_file,
               str ''title'' \<mapsto> StringEntry (str ''Summer''),
               str ''display_order'' \<mapsto> StringEntry (str ''7''))"

definition form_without_file :: form_data where
  "form_without_file = Map.empty(str ''title'' \<mapsto> StringEntry (str ''Summer''))"

text \<open>A form whose \<open>display_order\<close> starts with a no-break space, U+00A0.\<close>

definition form_with_nbsp :: form_data where
  "form_with_nbsp =
     Map.empty(str ''file'' \<mapsto> FileEntry example_file,
               str ''display_order'' \<mapsto> StringEntry (0x00A0 # str ''7''))"

definition example_table :: "QRCodeData list" where
  "example_table =
     [\<lparr>qr_id = str ''A'', qr_name = str ''Payment QR'',
       image_url = str ''https://cdn.example/a.png'',
       is_active = True, created_at = str ''2024-01-01'', updated_at = str ''2024-01-01''\<rparr>,
      \<lparr>qr_id = str ''B'', qr_name = str ''Backup QR'',
       image_url = str ''https://cdn.example/b.png'',
       is_active = False, created_at = str ''2024-01-02'', updated_at = str ''2024-01-02''\<rparr>]"

definition example_world :: world where
  "example_world = \<lparr>ui = initial_manager, qr_table = example_table, calls = []\<rparr>"

text \<open>The component after a file was selected and a name entered, with an empty list.\<close>

definition ready_world :: world where
  "ready_world =
     setQrCodeName (str ''Payment QR'')
       (handleFileSelect (Some example_file) (initial_world []))"

section \<open>Properties of the string and number operations\<close>

lemma js_split_not_Nil: "js_split c s \<noteq> []"
  by (induction s) (auto split: list.splits)

lemma js_split_no_sep: "c \<notin> set s \<Longrightarrow> js_split c s = [s]"
  by (induction s) auto

lemma js_split_sep: "c \<in> set s \<Longrightarrow> tl (js_split c s) \<noteq> []"
  by (induction s) (auto simp: js_split_not_Nil split: list.splits)

text \<open>The last piece of a split is what follows the last separator.\<close>

lemma last_js_split: "last (js_split c s) = rev (takeWhile (\<lambda>x. x \<noteq> c) (rev s))"
proof (induction s)
  case Nil
  show ?case by simp
next
  case (Cons x xs)
  show ?case
  proof (cases "x = c")
    case True
    then show ?thesis
      using Cons.IH js_split_not_Nil [of c xs]
      by (auto simp: takeWhile_append)
  next
    case False
    show ?thesis
    proof (cases "c \<in> set xs")
      case True
      obtain w ws where ws: "js_split c xs = w # ws" "ws \<noteq> []"
        using js_split_sep [OF True] js_split_not_Nil [of c xs]
        by (cases "js_split c xs") auto
      with Cons.IH True False show ?thesis
        by (auto simp: takeWhile_append)
    next
      case False
      with \<open>x \<noteq> c\<close> show ?thesis
        by (simp add: js_split_no_sep takeWhile_append)
    qed
  qed
qed

text \<open>\<open>pop\<close> on the result of a split is never \<open>undefined\<close>.\<close>

lemma pop_js_split: "pop (js_split dot s) = Some (extension s)"
  by (simp add: pop_def js_split_not_Nil last_js_split extension_def)

text \<open>White space beyond ASCII is trimmed: a no-break space and an ideographic space.\<close>

lemma trim_unicode_space: "trim [0x00A0, 0x3000] = []"
  by (simp add: trim_def is_space_def)

lemma digit_of_digit_char: "d < 10 \<Longrightarrow> digit_of (digit_char d) = d"
  by (simp add: digit_of_def digit_char_def)

lemma digit_of_less_not_space: "digit_of c < 36 \<Longrightarrow> \<not> is_space c"
  by (auto simp: is_space_def digit_of_def split: if_splits)

lemma string_of_nat_not_Nil: "string_of_nat n \<noteq> []"
  by (induction n rule: string_of_nat.induct) (subst string_of_nat.simps, simp)

lemma string_of_nat_digits: "c \<in> set (string_of_nat n) \<Longrightarrow> digit_of c < 10"
proof (induction n rule: string_of_nat.induct)
  case (1 n)
  show ?case
  proof (cases "n < 10")
    case True
    with "1.prems" show ?thesis
      by (subst (asm) string_of_nat.simps) (auto simp: digit_of_digit_char)
  next
    case False
    with "1.prems" have "c \<in> set (string_of_nat (n div 10)) \<or> c = digit_char (n mod 10)"
      by (subst (asm) string_of_nat.simps) auto
    with "1.IH" False show ?thesis
      by (auto simp: digit_of_digit_char)
  qed
qed

lemma radix_value_snoc: "radix_value R (Z @ [c]) = radix_value R Z * R + digit_of c"
  by (simp add: radix_value_def)

lemma radix_value_string_of_nat: "radix_value 10 (string_of_nat n) = n"
proof (induction n rule: string_of_nat.induct)
  case (1 n)
  show ?case
  proof (cases "n < 10")
    case True
    then show ?thesis
      by (subst string_of_nat.simps) (simp add: radix_value_def digit_of_digit_char)
  next
    case False
    with "1.IH" show ?thesis
      by (subst string_of_nat.simps) (simp add: radix_value_snoc digit_of_digit_char)
  qed
qed

text \<open>A non-empty string of decimal digits parses to its decimal value.\<close>

lemma parseInt_decimal:
  assumes ne: "s \<noteq> []" and dig: "\<forall>c \<in> set s. digit_of c < 10"
  shows "parseInt s = Num (int (radix_value 10 s))"
proof -
  obtain h t where s: "s = h # t" using ne by (cases s) auto
  have h: "digit_of h < 10" using dig s by simp
  have nsp: "\<not> is_space h" using h by (simp add: digit_of_less_not_space)
  have nsign: "h \<noteq> 45" "h \<noteq> 43"
    using h by (auto simp: digit_of_def)
  have nhex: "\<not> (case s of a # b # _ \<Rightarrow> a = 48 \<and> (b = 120 \<or> b = 88) | _ \<Rightarrow> False)"
    using dig s by (cases t) (auto simp: digit_of_def)
  have tw: "takeWhile (\<lambda>c. digit_of c < 10) s = s"
    using dig by (simp add: takeWhile_eq_all_conv)
  have dw: "dropWhile is_space s = s" using nsp s by simp
  show ?thesis
    unfolding parseInt_def dw
    using nsign nhex tw ne by (simp add: s Let_def)
qed

lemma parseInt_string_of_nat: "parseInt (string_of_nat n) = Num (int n)"
  using parseInt_decimal [of "string_of_nat n"] string_of_nat_not_Nil [of n]
    string_of_nat_digits [of _ n]
  by (simp add: radix_value_string_of_nat)

text \<open>Leading white space is skipped, also beyond ASCII.\<close>

lemma parseInt_skip_space: "is_space c \<Longrightarrow> parseInt (c # s) = parseInt s"
  by (simp add: parseInt_def)

text \<open>A string that starts with neither white space, a sign nor a decimal digit does not
  parse.\<close>

lemma parseInt_no_digit:
  assumes "\<not> is_space c" "c \<noteq> 43" "c \<noteq> 45" "10 \<le> digit_of c"
  shows "parseInt (c # r) = NaN"
  using assms by (cases r) (auto simp: parseInt_def Let_def digit_of_def)

lemma parseInt_empty: "parseInt [] = NaN"
  by (simp add: parseInt_def)

lemma parseInt_null: "parseInt (str ''null'') = NaN"
  by (simp add: str_def parseInt_no_digit is_space_def digit_of_def)

lemma parseInt_object: "parseInt (str ''[object File]'') = NaN"
  by (simp add: str_def parseInt_no_digit is_space_def digit_of_def)

lemma or_zero_case: "or_zero v = (case v of NaN \<Rightarrow> 0 | Num k \<Rightarrow> k)"
  by (cases v) (simp_all add: or_zero_def)

section \<open>Properties of the hero-image upload handler\<close>

text \<open>
  C2. A request whose multipart form has no \<open>file\<close> field is answered with status 400 and
  the error body \<open>No file provided\<close>, and the handler issues no call at all to the hosted
  service: no storage upload and no database insert.
\<close>

theorem POST_no_file:
  assumes "formData (str ''file'') = None"
  shows "POST toLowerCase now url ru ri (Multipart formData) =
           (\<lparr>status = 400, json = ErrorBody ''No file provided''\<rparr>, [])"
  using assms by (simp add: POST_def json_response_def)

theorem POST_no_file_witness:
  "form_without_file (str ''file'') = None \<and>
   POST ascii_lower 1700000000000 example_url (Success ()) (Success 1)
     (Multipart form_without_file) =
     (\<lparr>status = 400, json = ErrorBody ''No file provided''\<rparr>, [])"
proof -
  have h: "form_without_file (str ''file'') = None"
    by (simp add: form_without_file_def str_def)
  from h show ?thesis
    using POST_no_file [where formData = form_without_file and toLowerCase = ascii_lower
        and now = 1700000000000 and url = example_url and ru = "Success ()"
        and ri = "Success 1", OF h]
    by (intro conjI)
qed

text \<open>
  C3. When the form holds a file and the storage upload returns an error, the response
  has status 500 and the error body \<open>Failed to upload file\<close>; the storage upload is the
  only call issued, so no database insert is performed.
\<close>

theorem POST_storage_failure:
  assumes "formData (str ''file'') = Some (FileEntry f)"
  shows "status (fst (POST toLowerCase now url (Failure e) ri (Multipart formData))) = 500 \<and>
         error_of (json (fst (POST toLowerCase now url (Failure e) ri (Multipart formData)))) =
           Some ''Failed to upload file'' \<and>
         inserted_rows (snd (POST toLowerCase now url (Failure e) ri (Multipart formData))) =
           [] \<and>
         snd (POST toLowerCase now url (Failure e) ri (Multipart formData)) =
           [HeroStorageUpload ''hero-images''
              (str ''hero-'' @ string_of_nat now @ str ''.'' @
                 toLowerCase (extension (f_name f)))
              (f_bytes f) (f_type f) ''3600'']"
  using assms
  by (simp add: POST_def json_response_def error_of_def inserted_rows_def Let_def
      pop_js_split template_str_def)

theorem POST_storage_failure_witness:
  "example_form (str ''file'') = Some (FileEntry example_file) \<and>
   status (fst (POST ascii_lower 17 example_url (Failure (str ''quota'')) (Success 1)
     (Multipart example_form))) = 500 \<and>
   error_of (json (fst (POST ascii_lower 17 example_url (Failure (str ''quota'')) (Success 1)
     (Multipart example_form)))) = Some ''Failed to upload file'' \<and>
   inserted_rows (snd (POST ascii_lower 17 example_url (Failure (str ''quota'')) (Success 1)
     (Multipart example_form))) = []"
proof -
  have h: "example_form (str ''file'') = Some (FileEntry example_file)"
    by (simp add: example_form_def str_def)
  from h show ?thesis
    using POST_storage_failure [where formData = example_form and f = example_file
        and toLowerCase = ascii_lower and now = 17 and url = example_url
        and e = "str ''quota''" and ri = "Success 1", OF h]
    by blast
qed

text \<open>
  C5. When the form holds a file and both the storage upload and the database insert
  succeed, the response has status 200 and carries the inserted row as \<open>image\<close>; its
  \<open>file_name\<close> is \<open>hero-\<close>, the clock value, a dot and the lower-cased extension of the
  uploaded file's name, so it ends with that lower-cased extension. The extension is the
  last dot-separated segment of the name: what follows its last dot. Lower-casing is the
  language's \<open>toLowerCase\<close>, whatever its case mapping does on the name.
\<close>

theorem POST_file_name:
  assumes "formData (str ''file'') = Some (FileEntry f)"
  shows "status (fst (POST toLowerCase now url (Success ()) (Success rid)
                  (Multipart formData))) = 200 \<and>
         map_option file_name
           (image_of (json (fst (POST toLowerCase now url (Success ()) (Success rid)
              (Multipart formData))))) =
           Some (str ''hero-'' @ string_of_nat now @ str ''.'' @
                   toLowerCase (extension (f_name f))) \<and>
         (case image_of (json (fst (POST toLowerCase now url (Success ()) (Success rid)
                  (Multipart formData)))) of
            None \<Rightarrow> False
          | Some row \<Rightarrow> suffix (toLowerCase (extension (f_name f))) (file_name row))"
proof -
  have "suffix x (str ''hero-'' @ string_of_nat now @ str ''.'' @ x)" for x
    by (simp add: suffix_def)
  with assms show ?thesis
    by (simp add: POST_def json_response_def image_of_def Let_def pop_js_split template_str_def)
qed

theorem POST_file_name_witness:
  "example_form (str ''file'') = Some (FileEntry example_file) \<and>
   map_option file_name
     (image_of (json (fst (POST ascii_lower 17 example_url (Success ()) (Success 1)
        (Multipart example_form))))) = Some (str ''hero-17.jpg'') \<and>
   ascii_lower (extension (f_name example_file)) = str ''jpg''"
proof -
  have h: "example_form (str ''file'') = Some (FileEntry example_file)"
    by (simp add: example_form_def str_def)
  have ext: "ascii_lower (extension (f_name example_file)) = str ''jpg''"
    by (simp add: example_file_def extension_def ascii_lower_def str_def dot_def)
  have ts: "string_of_nat 17 = str ''17''"
    by (simp add: string_of_nat.simps digit_char_def str_def)
  have "map_option file_name
     (image_of (json (fst (POST ascii_lower 17 example_url (Success ()) (Success 1)
        (Multipart example_form))))) =
     Some (str ''hero-'' @ string_of_nat 17 @ str ''.'' @
             ascii_lower (extension (f_name example_file)))"
    using POST_file_name [where formData = example_form and f = example_file
        and toLowerCase = ascii_lower and now = 17 and url = example_url and rid = 1, OF h]
    by blast
  with h ext show ?thesis
    by (simp add: ts str_def)
qed

text \<open>
  C8. When the handler reaches the database insert, the \<open>display_order\<close> of the inserted
  row is the result of \<open>parseInt\<close> on the \<open>display_order\<close> form field, and 0 when that
  result is not a number; in particular it is 0 when the field is absent, and \<open>n\<close> when the
  field is the decimal numeral of \<open>n\<close>. The statement is made where the host language's
  numbers are exact, up to \<open>MAX_SAFE_INTEGER\<close> in magnitude.
\<close>

theorem POST_display_order:
  assumes "formData (str ''file'') = Some (FileEntry f)"
    and "\<bar>or_zero (parseInt (to_string (formData (str ''display_order''))))\<bar>
           \<le> MAX_SAFE_INTEGER"
  shows "map display_order
           (inserted_rows (snd (POST toLowerCase now url (Success ()) ri
              (Multipart formData)))) =
           [case parseInt (to_string (formData (str ''display_order''))) of
              NaN \<Rightarrow> 0 | Num k \<Rightarrow> k] \<and>
         (formData (str ''display_order'') = None \<longrightarrow>
            map display_order
              (inserted_rows (snd (POST toLowerCase now url (Success ()) ri
                 (Multipart formData)))) = [0]) \<and>
         (\<forall>n. formData (str ''display_order'') = Some (StringEntry (string_of_nat n)) \<longrightarrow>
            map display_order
              (inserted_rows (snd (POST toLowerCase now url (Success ()) ri
                 (Multipart formData)))) = [int n])"
proof -
  have rows: "map display_order
           (inserted_rows (snd (POST toLowerCase now url (Success ()) ri
              (Multipart formData)))) =
           [or_zero (parseInt (to_string (formData (str ''display_order''))))]"
    using assms(1)
    by (cases ri) (simp_all add: POST_def json_response_def inserted_rows_def Let_def)
  show ?thesis
    unfolding rows
    by (auto simp: or_zero_case to_string_def parseInt_null parseInt_string_of_nat)
qed

theorem POST_display_order_witness:
  "form_with_nbsp (str ''file'') = Some (FileEntry example_file) \<and>
   \<bar>or_zero (parseInt (to_string (form_with_nbsp (str ''display_order''))))\<bar>
     \<le> MAX_SAFE_INTEGER \<and>
   to_string (form_with_nbsp (str ''display_order'')) = 0x00A0 # str ''7'' \<and>
   map display_order
     (inserted_rows (snd (POST ascii_lower 17 example_url (Success ()) (Success 1)
        (Multipart form_with_nbsp)))) = [7]"
proof -
  have h: "form_with_nbsp (str ''file'') = Some (FileEntry example_file)"
    by (simp add: form_with_nbsp_def str_def)
  have f: "to_string (form_with_nbsp (str ''display_order'')) = 0x00A0 # str ''7''"
    by (simp add: form_with_nbsp_def to_string_def str_def)
  have p: "parseInt (0x00A0 # str ''7'') = Num 7"
    by (simp add: parseInt_def is_space_def digit_of_def radix_value_def str_def)
  have b: "\<bar>or_zero (parseInt (to_string (form_with_nbsp (str ''display_order''))))\<bar>
             \<le> MAX_SAFE_INTEGER"
    by (simp add: f p or_zero_def MAX_SAFE_INTEGER_def)
  have "map display_order
     (inserted_rows (snd (POST ascii_lower 17 example_url (Success ()) (Success 1)
        (Multipart form_with_nbsp)))) =
     [case parseInt (to_string (form_with_nbsp (str ''display_order''))) of
        NaN \<Rightarrow> 0 | Num k \<Rightarrow> k]"
    using POST_display_order [where formData = form_with_nbsp and f = example_file
        and toLowerCase = ascii_lower and now = 17 and url = example_url
        and ri = "Success 1", OF h b]
    by blast
  with h b f show ?thesis
    by (simp add: p)
qed

section \<open>Properties of the QR-code manager\<close>

lemmas world_defs = issue_def setQrCodes_def setLoading_def setUploading_def
  setSelectedFile_def setQrCodeName_def setError_def setSuccess_def

text \<open>What a list fetch leaves untouched, and the one call it issues.\<close>

lemma ui_loadQRCodes:
  "uploading (ui (loadQRCodes r w)) = uploading (ui w) \<and>
   selectedFile (ui (loadQRCodes r w)) = selectedFile (ui w) \<and>
   qr_table (loadQRCodes r w) = qr_table w \<and>
   success (ui (loadQRCodes r w)) = success (ui w) \<and>
   calls (loadQRCodes r w) = calls w @ [QrSelect]"
  by (cases r) (simp_all add: loadQRCodes_def world_defs Let_def)

lemma loading_loadQRCodes: "\<not> loading (ui (loadQRCodes r w))"
  by (cases r) (simp_all add: loadQRCodes_def world_defs Let_def)

text \<open>The \<open>uploading\<close> flag after one upload action, from any state: past the precondition
  check it is cleared, on a failed precondition it is not written.\<close>

lemma uploading_uploadQRCode:
  "uploading (ui (uploadQRCode now url ru ri rl w)) =
     ((selectedFile (ui w) = None \<or> trim (qrCodeName (ui w)) = []) \<and> uploading (ui w))"
  by (cases "selectedFile (ui w)")
     (simp_all add: uploadQRCode_def setError_def setUploading_def Let_def)

lemma uploading_step: "\<not> uploading (ui w) \<Longrightarrow> \<not> uploading (ui (step url w e))"
proof (cases e)
  case (Load r)
  assume "\<not> uploading (ui w)"
  with Load show ?thesis by (simp add: ui_loadQRCodes)
next
  case (SelectFile f)
  assume "\<not> uploading (ui w)"
  with SelectFile show ?thesis
    by (simp add: handleFileSelect_def world_defs split: option.splits)
next
  case (EnterName s)
  assume "\<not> uploading (ui w)"
  with EnterName show ?thesis by (simp add: world_defs)
next
  case (Upload now ru ri rl)
  assume "\<not> uploading (ui w)"
  with Upload show ?thesis by (simp add: uploading_uploadQRCode)
next
  case (Delete c rd rl i)
  assume "\<not> uploading (ui w)"
  with Delete show ?thesis
    by (cases rd) (simp_all add: deleteQRCode_def ui_loadQRCodes world_defs Let_def)
next
  case (Toggle r1 r2 rl i)
  assume "\<not> uploading (ui w)"
  with Toggle show ?thesis
    by (cases r1; cases r2) (simp_all add: toggleActive_def ui_loadQRCodes world_defs Let_def)
qed

lemma uploading_foldl:
  "\<not> uploading (ui w) \<Longrightarrow> \<not> uploading (ui (foldl (step url) w evs))"
  by (induction evs arbitrary: w) (simp_all add: uploading_step)

lemma uploading_run: "\<not> uploading (ui (run url rows evs))"
  unfolding run_def
  by (rule uploading_foldl) (simp add: initial_world_def initial_manager_def)

text \<open>The selected file, if any, is one that \<open>handleFileSelect\<close> accepted.\<close>

lemma selection_ok_step: "selection_ok w \<Longrightarrow> selection_ok (step url w e)"
proof (cases e)
  case (Load r)
  assume "selection_ok w"
  with Load show ?thesis by (simp add: selection_ok_def ui_loadQRCodes)
next
  case (SelectFile f)
  assume "selection_ok w"
  with SelectFile show ?thesis
    by (auto simp: selection_ok_def handleFileSelect_def acceptable_def world_defs
        split: option.splits)
next
  case (EnterName s)
  assume "selection_ok w"
  with EnterName show ?thesis by (simp add: selection_ok_def world_defs)
next
  case (Upload now ru ri rl)
  assume "selection_ok w"
  with Upload show ?thesis
    by (cases "selectedFile (ui w)"; cases ru; cases ri)
       (auto simp: selection_ok_def uploadQRCode_def ui_loadQRCodes world_defs Let_def)
next
  case (Delete c rd rl i)
  assume "selection_ok w"
  with Delete show ?thesis
    by (cases rd)
       (simp_all add: selection_ok_def deleteQRCode_def ui_loadQRCodes world_defs Let_def)
next
  case (Toggle r1 r2 rl i)
  assume "selection_ok w"
  with Toggle show ?thesis
    by (cases r1; cases r2)
       (simp_all add: selection_ok_def toggleActive_def ui_loadQRCodes world_defs Let_def)
qed

lemma selection_ok_foldl: "selection_ok w \<Longrightarrow> selection_ok (foldl (step url) w evs)"
  by (induction evs arbitrary: w) (simp_all add: selection_ok_step)

lemma selection_ok_run: "selection_ok (run url rows evs)"
  unfolding run_def
  by (rule selection_ok_foldl)
     (simp add: selection_ok_def initial_world_def initial_manager_def)

text \<open>The table after the two accepted writes of a toggle.\<close>

lemma active_ids_other:
  "b \<notin> set (map qr_id rows) \<Longrightarrow>
   active_ids (db_update True (Some b) (db_update False None rows)) = []"
  by (induction rows) (auto simp: active_ids_def db_update_def)

lemma active_ids_target:
  "distinct (map qr_id rows) \<Longrightarrow> b \<in> set (map qr_id rows) \<Longrightarrow>
   active_ids (db_update True (Some b) (db_update False None rows)) = [b]"
proof (induction rows)
  case Nil
  then show ?case by simp
next
  case (Cons r rows)
  show ?case
  proof (cases "qr_id r = b")
    case True
    with Cons.prems have "b \<notin> set (map qr_id rows)" by auto
    from active_ids_other [OF this] True show ?thesis
      by (simp add: active_ids_def db_update_def)
  next
    case False
    with Cons show ?thesis
      by (auto simp: active_ids_def db_update_def)
  qed
qed

text \<open>
  C1. Toggling activation on a row \<open>b\<close> of the table, whose identifiers are distinct, with
  both writes accepted and nothing else running in between, leaves exactly one row with
  \<open>is_active = true\<close>, the row \<open>b\<close>, whichever rows were active before.
\<close>

theorem toggleActive_single_active:
  assumes "distinct (map qr_id (qr_table w))"
    and "b \<in> set (map qr_id (qr_table w))"
  shows "active_ids (qr_table (toggleActive (Success ()) (Success ()) rl b w)) = [b]"
proof -
  have "qr_table (toggleActive (Success ()) (Success ()) rl b w) =
        db_update True (Some b) (db_update False None (qr_table w))"
    by (cases rl) (simp_all add: toggleActive_def loadQRCodes_def world_defs Let_def)
  with assms show ?thesis
    by (simp add: active_ids_target)
qed

theorem toggleActive_single_active_witness:
  "distinct (map qr_id (qr_table example_world)) \<and>
   str ''B'' \<in> set (map qr_id (qr_table example_world)) \<and>
   active_ids (qr_table example_world) = [str ''A''] \<and>
   active_ids (qr_table (toggleActive (Success ()) (Success ()) (Success None) (str ''B'')
      example_world)) = [str ''B'']"
proof -
  have d: "distinct (map qr_id (qr_table example_world))"
    by (simp add: example_world_def example_table_def str_def)
  have m: "str ''B'' \<in> set (map qr_id (qr_table example_world))"
    by (simp add: example_world_def example_table_def)
  have a: "active_ids (qr_table example_world) = [str ''A'']"
    by (simp add: example_world_def example_table_def active_ids_def)
  from d m a show ?thesis
    using toggleActive_single_active [of example_world "str ''B''" "Success None", OF d m]
    by (intro conjI)
qed

text \<open>
  C9. The reply of the first write of a toggle is not looked at: whether it reports an
  error or success, the component issues the same two writes, the second one on the
  target row, and ends in the same state; when the second write succeeds the success
  message is set (and the list fetched again) although the first write failed.
\<close>

theorem toggleActive_first_write_ignored:
  "calls (toggleActive (Failure e) r2 rl i w) = calls (toggleActive (Success ()) r2 rl i w) \<and>
   ui (toggleActive (Failure e) r2 rl i w) = ui (toggleActive (Success ()) r2 rl i w) \<and>
   take 2 (drop (length (calls w)) (calls (toggleActive (Failure e) r2 rl i w))) =
     [QrUpdate False None, QrUpdate True (Some i)] \<and>
   success (ui (toggleActive (Failure e) (Success ()) rl i w)) = ''QR code status updated!'' \<and>
   calls (toggleActive (Failure e) (Success ()) rl i w) =
     calls w @ [QrUpdate False None, QrUpdate True (Some i), QrSelect]"
  by (cases r2; cases rl)
     (simp_all add: toggleActive_def loadQRCodes_def world_defs Let_def)

theorem toggleActive_first_write_ignored_witness:
  "success (ui (toggleActive (Failure (str ''denied'')) (Success ()) (Success None)
      (str ''B'') example_world)) = ''QR code status updated!'' \<and>
   calls (toggleActive (Failure (str ''denied'')) (Success ()) (Success None) (str ''B'')
      example_world) =
     [QrUpdate False None, QrUpdate True (Some (str ''B'')), QrSelect]"
proof -
  note r = toggleActive_first_write_ignored [of "str ''denied''" "Success ()" "Success None"
      "str ''B''" example_world]
  have c: "calls example_world = []"
    by (simp add: example_world_def)
  from r have s: "success (ui (toggleActive (Failure (str ''denied'')) (Success ())
      (Success None) (str ''B'') example_world)) = ''QR code status updated!''"
    by blast
  from r have k: "calls (toggleActive (Failure (str ''denied'')) (Success ()) (Success None)
      (str ''B'') example_world) =
      calls example_world @ [QrUpdate False None, QrUpdate True (Some (str ''B'')), QrSelect]"
    by blast
  show ?thesis
    by (intro conjI) (rule s, simp only: k c append_Nil)
qed

text \<open>
  C4. When a file is selected, the name is not blank after trimming (the language's
  white space, also beyond ASCII), and the storage upload and the insert both succeed,
  the row sent with the insert, and the row the table receives, has \<open>is_active\<close> true if
  and only if the component's list \<open>qrCodes\<close> was empty.
\<close>

theorem uploadQRCode_is_active:
  assumes "selectedFile (ui w) = Some f" and "trim (qrCodeName (ui w)) \<noteq> []"
  shows "map ins_is_active
           (qr_inserts (drop (length (calls w))
              (calls (uploadQRCode now url (Success ()) (Success (i, t)) rl w)))) =
           [qrCodes (ui w) = []] \<and>
         map is_active
           (drop (length (qr_table w))
              (qr_table (uploadQRCode now url (Success ()) (Success (i, t)) rl w))) =
           [qrCodes (ui w) = []]"
  using assms
  by (simp add: uploadQRCode_def ui_loadQRCodes world_defs Let_def qr_inserts_def db_insert_def)

theorem uploadQRCode_is_active_witness:
  "selectedFile (ui ready_world) = Some example_file \<and>
   trim (qrCodeName (ui ready_world)) \<noteq> [] \<and>
   map is_active
     (qr_table (uploadQRCode 17 example_url (Success ())
        (Success (str ''A'', str ''2024-01-01'')) (Success None) ready_world)) = [True]"
proof -
  have s: "selectedFile (ui ready_world) = Some example_file"
    by (simp add: ready_world_def handleFileSelect_def example_file_def startsWith_def
        initial_world_def initial_manager_def world_defs str_def)
  have n: "qrCodeName (ui ready_world) = str ''Payment QR''"
    by (simp add: ready_world_def world_defs)
  have t: "trim (qrCodeName (ui ready_world)) \<noteq> []"
    unfolding n by (simp add: trim_def is_space_def str_def)
  have q: "qrCodes (ui ready_world) = []" "qr_table ready_world = []"
    by (simp_all add: ready_world_def handleFileSelect_def example_file_def startsWith_def
        initial_world_def initial_manager_def world_defs str_def)
  have "map is_active
     (drop (length (qr_table ready_world))
        (qr_table (uploadQRCode 17 example_url (Success ())
           (Success (str ''A'', str ''2024-01-01'')) (Success None) ready_world))) =
     [qrCodes (ui ready_world) = []]"
    using uploadQRCode_is_active [of ready_world example_file 17 example_url "str ''A''"
        "str ''2024-01-01''" "Success None", OF s t]
    by blast
  with s t show ?thesis
    by (simp add: q)
qed

text \<open>
  C7. When no file is selected, or the entered name is blank after trimming (empty, or
  made of the language's white space only, also beyond ASCII), the upload action sets the
  error message \<open>Please select a file and enter a name\<close> and issues no network call: the
  calls and the table are as before.
\<close>

theorem uploadQRCode_precondition:
  assumes "selectedFile (ui w) = None \<or> trim (qrCodeName (ui w)) = []"
  shows "error (ui (uploadQRCode now url ru ri rl w)) =
           ''Please select a file and enter a name'' \<and>
         calls (uploadQRCode now url ru ri rl w) = calls w \<and>
         qr_table (uploadQRCode now url ru ri rl w) = qr_table w"
  using assms
  by (cases "selectedFile (ui w)") (auto simp: uploadQRCode_def setError_def)

theorem uploadQRCode_precondition_witness:
  "(selectedFile (ui (setQrCodeName [0x0020, 0x00A0, 0x3000] ready_world)) = None \<or>
      trim (qrCodeName (ui (setQrCodeName [0x0020, 0x00A0, 0x3000] ready_world))) = []) \<and>
   error (ui (uploadQRCode 17 example_url (Success ())
      (Success (str ''A'', str ''2024-01-01'')) (Success None)
      (setQrCodeName [0x0020, 0x00A0, 0x3000] ready_world))) =
     ''Please select a file and enter a name'' \<and>
   calls (uploadQRCode 17 example_url (Success ())
      (Success (str ''A'', str ''2024-01-01'')) (Success None)
      (setQrCodeName [0x0020, 0x00A0, 0x3000] ready_world)) = []"
proof -
  have t: "trim (qrCodeName (ui (setQrCodeName [0x0020, 0x00A0, 0x3000] ready_world))) = []"
    by (simp add: world_defs trim_def is_space_def)
  then have h: "selectedFile (ui (setQrCodeName [0x0020, 0x00A0, 0x3000] ready_world)) = None \<or>
      trim (qrCodeName (ui (setQrCodeName [0x0020, 0x00A0, 0x3000] ready_world))) = []"
    by (rule disjI2)
  have c: "calls (setQrCodeName [0x0020, 0x00A0, 0x3000] ready_world) = []"
    by (simp add: ready_world_def handleFileSelect_def example_file_def startsWith_def
        initial_world_def world_defs str_def)
  note r = uploadQRCode_precondition [of "setQrCodeName [0x0020, 0x00A0, 0x3000] ready_world"
      17 example_url "Success ()" "Success (str ''A'', str ''2024-01-01'')" "Success None",
      OF h]
  from r have e: "error (ui (uploadQRCode 17 example_url (Success ())
      (Success (str ''A'', str ''2024-01-01'')) (Success None)
      (setQrCodeName [0x0020, 0x00A0, 0x3000] ready_world))) =
      ''Please select a file and enter a name''"
    by blast
  from r have k: "calls (uploadQRCode 17 example_url (Success ())
      (Success (str ''A'', str ''2024-01-01'')) (Success None)
      (setQrCodeName [0x0020, 0x00A0, 0x3000] ready_world)) =
      calls (setQrCodeName [0x0020, 0x00A0, 0x3000] ready_world)"
    by blast
  show ?thesis
    by (intro conjI) (rule h, rule e, simp only: k c)
qed

text \<open>
  C6. When the chosen file is larger than 5 MiB or its declared type does not start with
  \<open>image/\<close>, the handler does not assign \<open>selectedFile\<close>: it keeps its value, so a
  selection that is unset, as on the mounted component, stays unset. The handler sets an
  error message and issues no network call; and in no state the component reaches is the
  rejected file the selected one afterwards.
\<close>

theorem handleFileSelect_rejects:
  assumes "f_size f > 5 * 1024 * 1024 \<or> \<not> startsWith (f_type f) (str ''image/'')"
  shows "selectedFile (ui (handleFileSelect (Some f) w)) = selectedFile (ui w) \<and>
         error (ui (handleFileSelect (Some f) w)) =
           (if f_size f > 5 * 1024 * 1024 then ''File size must be less than 5MB''
            else ''Please select an image file'') \<and>
         calls (handleFileSelect (Some f) w) = calls w \<and>
         qr_table (handleFileSelect (Some f) w) = qr_table w \<and>
         selectedFile (ui (handleFileSelect (Some f) (initial_world rows))) = None \<and>
         selectedFile (ui (handleFileSelect (Some f) (run url rows evs))) \<noteq> Some f"
proof -
  have init: "selectedFile (ui (initial_world rows)) = None"
    by (simp add: initial_world_def initial_manager_def)
  have keep: "selectedFile (ui (handleFileSelect (Some f) v)) = selectedFile (ui v)" for v
    using assms by (auto simp: handleFileSelect_def setError_def)
  have "\<not> acceptable f"
    using assms by (auto simp: acceptable_def)
  with selection_ok_run [of url rows evs]
  have "selectedFile (ui (run url rows evs)) \<noteq> Some f"
    by (auto simp: selection_ok_def split: option.splits)
  with keep init assms show ?thesis
    by (auto simp: handleFileSelect_def setError_def)
qed

theorem handleFileSelect_rejects_witness:
  "(f_size large_file > 5 * 1024 * 1024 \<or>
      \<not> startsWith (f_type large_file) (str ''image/'')) \<and>
   selectedFile (ui (handleFileSelect (Some large_file) (initial_world []))) = None \<and>
   error (ui (handleFileSelect (Some large_file) (initial_world []))) =
     ''File size must be less than 5MB'' \<and>
   calls (handleFileSelect (Some large_file) (initial_world [])) = []"
proof -
  have sz: "f_size large_file > 5 * 1024 * 1024"
    by (simp add: large_file_def)
  then have h: "f_size large_file > 5 * 1024 * 1024 \<or>
      \<not> startsWith (f_type large_file) (str ''image/'')"
    by (rule disjI1)
  have i: "selectedFile (ui (initial_world [])) = None" "calls (initial_world []) = []"
    by (simp_all add: initial_world_def initial_manager_def)
  from h sz i show ?thesis
    using handleFileSelect_rejects [where f = large_file and w = "initial_world []"
        and url = example_url and rows = "[]" and evs = "[]", OF h]
    by simp
qed

text \<open>
  C10. In every state the component reaches by completed actions, a completed upload
  action leaves the \<open>uploading\<close> flag false, whatever the replies of the storage upload,
  the insert and the list fetch (success, a returned error, or a rejected call) and
  whether or not the precondition held; and a completed list fetch leaves the \<open>loading\<close>
  flag false, from any state and for any reply.
\<close>

theorem busy_flags_cleared:
  "\<not> uploading (ui (uploadQRCode now url ru ri rl (run url rows evs))) \<and>
   \<not> loading (ui (loadQRCodes r w))"
  by (simp add: uploading_uploadQRCode uploading_run loading_loadQRCodes)

theorem busy_flags_cleared_witness:
  "\<not> uploading (ui (uploadQRCode 17 example_url Rejected
        (Success (str ''A'', str ''2024-01-01'')) (Success None)
        (run example_url [] [Load (Failure (str ''offline'')), SelectFile (Some example_file),
           EnterName (str ''Payment QR'')]))) \<and>
   \<not> loading (ui (loadQRCodes (Failure (str ''offline'')) example_world))"
  using busy_flags_cleared [of 17 example_url Rejected
      "Success (str ''A'', str ''2024-01-01'')" "Success None" "[]"
      "[Load (Failure (str ''offline'')), SelectFile (Some example_file),
        EnterName (str ''Payment QR'')]"
      "Failure (str ''offline'')" example_world]
  by simp

end
